theory Spec2Isabelle
  imports Complex_Main
begin

section \<open>Data model (src/app/types/tracking.ts)\<close>

text \<open>
  JavaScript numbers are modelled as rationals where the source computes with them
  (bounding boxes, confidences, scale factors) and as integers where the source only
  counts or reads the clock (\<open>frameCountRef\<close>, \<open>Date.now()\<close>, track ids, the pixel
  dimensions of a canvas or a video, which the DOM types as unsigned integers).
  Rational arithmetic is exact where a double rounds. The facts proved below involve
  the quotients \<open>w / w\<close> and \<open>0 / 1\<close>, products with \<open>0\<close> and \<open>1\<close>, sums and
  differences of pixel coordinates, and the quotient of two integers (a count times 1000,
  a number of milliseconds) rounded to the nearest integer. The percentage printed in
  a label, where the rounding of the double product shows, is left to the browser
  (\<open>percentText\<close> below).
\<close>

record tracked_object =
  obj_id :: int
  bbox :: "rat \<times> rat \<times> rat \<times> rat"
  obj_class :: string
  confidence :: rat
  trajectory :: "(rat \<times> rat) list option"

record tracking_config =
  wsUrl :: string
  apiUrl :: string
  confidenceThreshold :: "rat option"

section \<open>The transport: WebSocket objects and interval timers\<close>

datatype ready_state = CONNECTING | OPEN | CLOSING | CLOSED

text \<open>The two messages the hook serialises with \<open>JSON.stringify\<close> and sends.\<close>

datatype outbound =
  Frame (image: string) (timestamp: int) (frame_id: int)
| Ping

text \<open>
  A WebSocket object: its \<open>readyState\<close>, the URL it was constructed with and the log
  of the \<open>send\<close> calls made on it (the transport double of the specification).
\<close>

record websocket =
  readyState :: ready_state
  ws_url :: string
  sent :: "outbound list"

text \<open>
  An inbound \<open>event.data\<close>. \<open>Unparsable\<close> stands for every payload on which the
  \<open>try\<close> block of \<open>ws.onmessage\<close> throws before it changes anything
  (\<open>JSON.parse\<close> fails, or yields \<open>null\<close> so that \<open>data.type\<close> throws).
  \<open>Parsed\<close> carries the three fields the handler reads, each absent or present,
  typed as the wire protocol types them.
\<close>

datatype inbound =
  Unparsable
| Parsed (msg_type: "string option") (msg_error: "string option")
    (msg_objects: "tracked_object list option")

section \<open>State of one \<open>useObjectTracker\<close> instance\<close>

text \<open>
  The five \<open>useState\<close> cells and the four \<open>useRef\<close> cells of the hook, together with
  the objects the refs point to: \<open>sockets\<close> holds every WebSocket the hook has
  constructed (a socket is named by its index; \<open>wsRef\<close> is \<open>None\<close> for \<open>null\<close>),
  and \<open>timers\<close> holds the interval timers that are still scheduled, each with the
  socket its callback closes over. Browser timer handles are positive integers (the
  first handle here is 1), so the truthiness test \<open>if (pingIntervalRef.current)\<close> is
  the test against \<open>null\<close>.
\<close>

record tracker =
  trackedObjects :: "tracked_object list"
  isProcessing :: bool
  isConnected :: bool
  fps :: int
  error :: "string option"
  wsRef :: "nat option"
  frameCountRef :: int
  lastTimeRef :: int
  pingIntervalRef :: "nat option"
  sockets :: "websocket list"
  timers :: "(nat \<times> nat) list"
  nextHandle :: nat

text \<open>The initial render: \<open>lastTimeRef\<close> is initialised with \<open>Date.now()\<close>.\<close>

definition initial :: "int \<Rightarrow> tracker" where
  "initial now =
     \<lparr> trackedObjects = [], isProcessing = False, isConnected = False, fps = 0,
       error = None, wsRef = None, frameCountRef = 0, lastTimeRef = now,
       pingIntervalRef = None, sockets = [], timers = [], nextHandle = 1 \<rparr>"

subsection \<open>Operations on the referenced objects\<close>

definition ws_readyState :: "tracker \<Rightarrow> nat \<Rightarrow> ready_state option" where
  "ws_readyState st i =
     (if i < length (sockets st) then Some (readyState (sockets st ! i)) else None)"

text \<open>\<open>ws.send(m)\<close> on socket \<open>i\<close>; both callers test \<open>readyState === OPEN\<close> first.\<close>

definition ws_send :: "nat \<Rightarrow> outbound \<Rightarrow> tracker \<Rightarrow> tracker" where
  "ws_send i m st =
     (if i < length (sockets st)
      then st\<lparr>sockets := (sockets st)[i := (sockets st ! i)\<lparr>sent := sent (sockets st ! i) @ [m]\<rparr>]\<rparr>
      else st)"

text \<open>
  \<open>ws.close()\<close>: nothing on a socket that is closing or closed; otherwise the closing
  handshake starts (or the pending connection is failed) and \<open>readyState\<close> becomes
  \<open>CLOSING\<close>.
\<close>

definition ws_close :: "nat \<Rightarrow> tracker \<Rightarrow> tracker" where
  "ws_close i st =
     (if i < length (sockets st)
      then (case readyState (sockets st ! i) of
              CLOSING \<Rightarrow> st
            | CLOSED \<Rightarrow> st
            | _ \<Rightarrow> st\<lparr>sockets := (sockets st)[i := (sockets st ! i)\<lparr>readyState := CLOSING\<rparr>]\<rparr>)
      else st)"

text \<open>\<open>setInterval\<close> for the ping callback of socket \<open>i\<close>; returns the new handle.\<close>

definition setInterval :: "nat \<Rightarrow> tracker \<Rightarrow> nat \<times> tracker" where
  "setInterval i st =
     (nextHandle st,
      st\<lparr>timers := timers st @ [(nextHandle st, i)], nextHandle := Suc (nextHandle st)\<rparr>)"

definition clearInterval :: "nat \<Rightarrow> tracker \<Rightarrow> tracker" where
  "clearInterval h st = st\<lparr>timers := filter (\<lambda>(h', i). h' \<noteq> h) (timers st)\<rparr>"

section \<open>The hook (src/app/hooks/use-object-tracker.ts)\<close>

text \<open>
  Whether \<open>new WebSocket(config.wsUrl)\<close> returns or throws is decided by the browser's
  URL parser; it is an input of the model.
\<close>

datatype constructor_outcome = Constructed | Throws

definition connectWebSocket :: "tracking_config \<Rightarrow> constructor_outcome \<Rightarrow> tracker \<Rightarrow> tracker" where
  "connectWebSocket config c st =
     (let st1 = st\<lparr>error := None\<rparr> in
      case c of
        Throws \<Rightarrow> st1\<lparr>error := Some ''Failed to connect to tracking server''\<rparr>
      | Constructed \<Rightarrow>
          st1\<lparr>sockets := sockets st1 @ [\<lparr>readyState = CONNECTING, ws_url = wsUrl config, sent = []\<rparr>],
              wsRef := Some (length (sockets st1))\<rparr>)"

definition sendFrame :: "string \<Rightarrow> int \<Rightarrow> tracker \<Rightarrow> tracker" where
  "sendFrame frameData now st =
     (case wsRef st of
        None \<Rightarrow> st
      | Some i \<Rightarrow>
          if ws_readyState st i = Some OPEN
          then ws_send i (Frame frameData now (frameCountRef st)) st
          else st)"

definition startTracking :: "tracking_config \<Rightarrow> int \<Rightarrow> constructor_outcome \<Rightarrow> tracker \<Rightarrow> tracker" where
  "startTracking config now c st =
     connectWebSocket config c (st\<lparr>frameCountRef := 0, lastTimeRef := now\<rparr>)"

definition stopTracking :: "tracker \<Rightarrow> tracker" where
  "stopTracking st =
     (let st1 = st\<lparr>isProcessing := False, trackedObjects := [], fps := 0\<rparr>;
          st2 = (case pingIntervalRef st1 of None \<Rightarrow> st1 | Some h \<Rightarrow> clearInterval h st1)
      in case wsRef st2 of
           None \<Rightarrow> st2
         | Some i \<Rightarrow> (ws_close i st2)\<lparr>wsRef := None\<rparr>)"

subsection \<open>The handlers \<open>connectWebSocket\<close> installs on the socket it creates\<close>

definition ws_onopen :: "nat \<Rightarrow> tracker \<Rightarrow> tracker" where
  "ws_onopen i st =
     (let st1 = st\<lparr>isConnected := True, isProcessing := True\<rparr>;
          (h, st2) = setInterval i st1
      in st2\<lparr>pingIntervalRef := Some h\<rparr>)"

text \<open>\<open>Math.round\<close>: the nearest integer, a tie going up.\<close>

definition math_round :: "rat \<Rightarrow> int" where
  "math_round x = \<lfloor>x + 1 / 2\<rfloor>"

text \<open>JavaScript truthiness of a field that is absent or a string.\<close>

definition truthy :: "string option \<Rightarrow> bool" where
  "truthy v = (case v of None \<Rightarrow> False | Some s \<Rightarrow> s \<noteq> [])"

definition ws_onmessage :: "inbound \<Rightarrow> int \<Rightarrow> tracker \<Rightarrow> tracker" where
  "ws_onmessage data now st =
     (case data of
        Unparsable \<Rightarrow> st
      | Parsed ty err objs \<Rightarrow>
          if ty = Some ''pong'' then st
          else if truthy err then st\<lparr>error := err\<rparr>
          else (case objs of
                  None \<Rightarrow> st
                | Some os \<Rightarrow>
                    let st1 = st\<lparr>trackedObjects := os, frameCountRef := frameCountRef st + 1\<rparr>;
                        delta = now - lastTimeRef st1
                    in if delta \<ge> 1000
                       then st1\<lparr>fps := math_round (of_int (frameCountRef st1 * 1000) / of_int delta),
                                frameCountRef := 0, lastTimeRef := now\<rparr>
                       else st1))"

definition ws_onerror :: "tracker \<Rightarrow> tracker" where
  "ws_onerror st =
     st\<lparr>error := Some ''Connection error. Please check your network.'', isConnected := False\<rparr>"

definition ws_onclose :: "tracker \<Rightarrow> tracker" where
  "ws_onclose st =
     (let st1 = st\<lparr>isConnected := False, isProcessing := False\<rparr>
      in case pingIntervalRef st1 of None \<Rightarrow> st1 | Some h \<Rightarrow> clearInterval h st1)"

text \<open>The callback of the 30 s interval started in \<open>ws.onopen\<close> of socket \<open>i\<close>.\<close>

definition ping_tick :: "nat \<Rightarrow> tracker \<Rightarrow> tracker" where
  "ping_tick i st = (if ws_readyState st i = Some OPEN then ws_send i Ping st else st)"

subsection \<open>The session state the specification speaks of\<close>

text \<open>
  The hook keeps no state variable of this name; the state of a session is what
  \<open>sendFrame\<close> reads: \<open>wsRef.current\<close> and the \<open>readyState\<close> of the socket it
  points to. A hook without a socket is idle.
\<close>

datatype session_state = Idle | Connecting | Open | Closing | Closed

definition sessionState :: "tracker \<Rightarrow> session_state" where
  "sessionState st =
     (case wsRef st of
        None \<Rightarrow> Idle
      | Some i \<Rightarrow>
          (case ws_readyState st i of
             None \<Rightarrow> Idle
           | Some CONNECTING \<Rightarrow> Connecting
           | Some OPEN \<Rightarrow> Open
           | Some CLOSING \<Rightarrow> Closing
           | Some CLOSED \<Rightarrow> Closed))"

text \<open>All frames and pings sent so far, socket by socket.\<close>

definition transmissions :: "tracker \<Rightarrow> outbound list" where
  "transmissions st = concat (map sent (sockets st))"

subsection \<open>Events of a session\<close>

text \<open>
  A session is driven by calls of the exported operations and by events of the
  transport. The transport follows the WebSocket API: an \<open>open\<close> event is delivered
  to a connecting socket and makes it \<open>OPEN\<close>; a \<open>message\<close> event is delivered only
  while the socket is \<open>OPEN\<close>; an \<open>error\<close> or \<open>close\<close> event is delivered to a socket
  that is not yet \<open>CLOSED\<close>, and \<open>close\<close> makes it \<open>CLOSED\<close>. A timer callback runs
  while its handle is scheduled. An event the transport does not deliver changes nothing.
\<close>

datatype event =
  StartTracking tracking_config int constructor_outcome
| StopTracking
| SendFrame string int
| SocketOpen nat
| SocketMessage nat inbound int
| SocketError nat
| SocketClose nat
| TimerTick nat

definition set_readyState :: "nat \<Rightarrow> ready_state \<Rightarrow> tracker \<Rightarrow> tracker" where
  "set_readyState i r st =
     (if i < length (sockets st)
      then st\<lparr>sockets := (sockets st)[i := (sockets st ! i)\<lparr>readyState := r\<rparr>]\<rparr>
      else st)"

fun step :: "event \<Rightarrow> tracker \<Rightarrow> tracker" where
  "step (StartTracking config now c) st = startTracking config now c st"
| "step StopTracking st = stopTracking st"
| "step (SendFrame frameData now) st = sendFrame frameData now st"
| "step (SocketOpen i) st =
     (if ws_readyState st i = Some CONNECTING
      then ws_onopen i (set_readyState i OPEN st) else st)"
| "step (SocketMessage i data now) st =
     (if ws_readyState st i = Some OPEN then ws_onmessage data now st else st)"
| "step (SocketError i) st =
     (if ws_readyState st i \<in> {Some CONNECTING, Some OPEN, Some CLOSING}
      then ws_onerror st else st)"
| "step (SocketClose i) st =
     (if ws_readyState st i \<in> {Some CONNECTING, Some OPEN, Some CLOSING}
      then ws_onclose (set_readyState i CLOSED st) else st)"
| "step (TimerTick h) st =
     (case map_of (timers st) h of None \<Rightarrow> st | Some i \<Rightarrow> ping_tick i st)"

fun run :: "event list \<Rightarrow> tracker \<Rightarrow> tracker" where
  "run [] st = st"
| "run (e # es) st = run es (step e st)"

text \<open>The sockets that hold a connection or are establishing one.\<close>

definition liveSockets :: "tracker \<Rightarrow> nat list" where
  "liveSockets st =
     filter (\<lambda>i. readyState (sockets st ! i) = CONNECTING \<or> readyState (sockets st ! i) = OPEN)
       [0 ..< length (sockets st)]"

text \<open>No socket holds a connection or is establishing one.\<close>

definition no_live :: "tracker \<Rightarrow> bool" where
  "no_live st = list_all (\<lambda>s. readyState s = CLOSING \<or> readyState s = CLOSED) (sockets st)"

fun is_start :: "event \<Rightarrow> bool" where
  "is_start (StartTracking config now c) = True"
| "is_start _ = False"

text \<open>The \<open>frame_id\<close>s of the frames sent on a socket, in the order of sending.\<close>

fun frame_ids :: "outbound list \<Rightarrow> int list" where
  "frame_ids [] = []"
| "frame_ids (Frame img ts fid # ms) = fid # frame_ids ms"
| "frame_ids (Ping # ms) = frame_ids ms"

text \<open>Handling a sequence of inbound messages, each with the clock reading at its arrival.\<close>

fun receive :: "(inbound \<times> int) list \<Rightarrow> tracker \<Rightarrow> tracker" where
  "receive [] st = st"
| "receive ((data, now) # ms) st = receive ms (ws_onmessage data now st)"

text \<open>A results message of the wire protocol: no \<open>type\<close> tag, no \<open>error\<close> field.\<close>

definition results :: "tracked_object list \<Rightarrow> inbound" where
  "results os = Parsed None None (Some os)"

text \<open>
  The messages that reach the results branch of \<open>ws.onmessage\<close>: not tagged \<open>pong\<close>
  (any other tag, such as \<open>tracking_update\<close>, or none), no truthy error field, and an
  \<open>objects\<close> field.
\<close>

definition is_results :: "inbound \<Rightarrow> bool" where
  "is_results d =
     (case d of
        Unparsable \<Rightarrow> False
      | Parsed ty err objs \<Rightarrow> ty \<noteq> Some ''pong'' \<and> \<not> truthy err \<and> objs \<noteq> None)"

section \<open>The overlay renderer (\<open>TrackingCanvas\<close>, src/unnamed/part\_001)\<close>

record canvas =
  width :: nat
  height :: nat
  ctx2d :: bool

record video =
  videoWidth :: nat
  videoHeight :: nat

text \<open>The calls and assignments \<open>draw\<close> makes on the 2D context, in order.\<close>

datatype canvas_op =
  ClearRect rat rat rat rat
| StrokeStyle "string option"
| LineWidth rat
| StrokeRect rat rat rat rat
| BeginPath
| MoveTo rat rat
| LineTo rat rat
| Stroke
| Font string
| FillStyle "string option"
| FillRect rat rat rat rat
| FillText string rat rat
| SetLineDash "rat list"
| GlobalAlpha rat

definition COLORS :: "string list" where
  "COLORS =
     [''#FF6B6B'', ''#4ECDC4'', ''#45B7D1'', ''#96CEB4'', ''#FECA57'',
      ''#FF9FF3'', ''#54A0FF'', ''#48DBFB'', ''#1DD1A1'', ''#FFC048'',
      ''#FF6B9D'', ''#C44569'', ''#F8B500'', ''#6C5CE7'', ''#A29BFE'']"

text \<open>The remainder operator \<open>%\<close>: the result has the sign of the dividend.\<close>

definition js_rem :: "int \<Rightarrow> int \<Rightarrow> int" where
  "js_rem a b = sgn a * (\<bar>a\<bar> mod \<bar>b\<bar>)"

text \<open>
  \<open>COLORS[obj.id % COLORS.length]\<close>; a negative index reads \<open>undefined\<close> (\<open>None\<close>),
  which the context ignores when it is assigned to \<open>strokeStyle\<close> or \<open>fillStyle\<close>.
\<close>

definition color_of :: "int \<Rightarrow> string option" where
  "color_of i =
     (let r = js_rem i (int (length COLORS))
      in if 0 \<le> r \<and> nat r < length COLORS then Some (COLORS ! nat r) else None)"

fun show_nat :: "nat \<Rightarrow> string" where
  "show_nat n =
     (if n < 10 then [char_of (48 + n)]
      else show_nat (n div 10) @ [char_of (48 + n mod 10)])"

definition show_int :: "int \<Rightarrow> string" where
  "show_int i = (if i < 0 then CHR ''-'' # show_nat (nat (- i)) else show_nat (nat i))"

text \<open>
  The label text. \<open>percentText\<close> stands for \<open>(c * 100).toFixed(0)\<close> as a function of
  the confidence \<open>c\<close>: the product and the rounding to an integer are done on doubles
  by the browser, and the product of two doubles is not always the exact product
  (\<open>0.285 * 100\<close> is just below 28.5 and prints as 28). It is an input of the model.
\<close>

definition fullLabel :: "(rat \<Rightarrow> string) \<Rightarrow> tracked_object \<Rightarrow> string" where
  "fullLabel percentText obj =
     (let label = ''ID:'' @ show_int (obj_id obj) @ '' '' @ obj_class obj;
          confidence = percentText (confidence obj) @ ''%''
      in label @ '' '' @ confidence)"

text \<open>The dashed polyline, drawn when the object has more than one trajectory point.\<close>

definition draw_trajectory ::
  "string option \<Rightarrow> rat \<Rightarrow> rat \<Rightarrow> (rat \<times> rat) list option \<Rightarrow> canvas_op list" where
  "draw_trajectory color scaleX scaleY tr =
     (case tr of
        Some (p # q # ps) \<Rightarrow>
          [StrokeStyle color, LineWidth 2, SetLineDash [5, 5], GlobalAlpha (6 / 10), BeginPath,
           MoveTo (fst p * scaleX) (snd p * scaleY)]
          @ map (\<lambda>pt. LineTo (fst pt * scaleX) (snd pt * scaleY)) (q # ps)
          @ [Stroke, GlobalAlpha 1, SetLineDash []]
      | _ \<Rightarrow> [])"

text \<open>
  The body of \<open>trackedObjects.forEach\<close>. \<open>measureText\<close> is \<open>ctx.measureText(_).width\<close>
  under the font set just before the call, a function of the browser, as \<open>percentText\<close>
  is.
\<close>

definition draw_object ::
  "(string \<Rightarrow> rat) \<Rightarrow> (rat \<Rightarrow> string) \<Rightarrow> rat \<Rightarrow> rat \<Rightarrow> tracked_object \<Rightarrow> canvas_op list" where
  "draw_object measureText percentText scaleX scaleY obj =
     (let color = color_of (obj_id obj);
          (x1, y1, x2, y2) = bbox obj;
          sx1 = x1 * scaleX;
          sy1 = y1 * scaleY;
          sx2 = x2 * scaleX;
          sy2 = y2 * scaleY;
          width = sx2 - sx1;
          height = sy2 - sy1;
          cornerLength = min width height * (2 / 10);
          textHeight = 24;
          padding = 8
      in [StrokeStyle color, LineWidth 3, StrokeRect sx1 sy1 width height,
          LineWidth 4,
          BeginPath, MoveTo sx1 (sy1 + cornerLength), LineTo sx1 sy1,
            LineTo (sx1 + cornerLength) sy1, Stroke,
          BeginPath, MoveTo (sx2 - cornerLength) sy1, LineTo sx2 sy1,
            LineTo sx2 (sy1 + cornerLength), Stroke,
          BeginPath, MoveTo sx1 (sy2 - cornerLength), LineTo sx1 sy2,
            LineTo (sx1 + cornerLength) sy2, Stroke,
          BeginPath, MoveTo (sx2 - cornerLength) sy2, LineTo sx2 sy2,
            LineTo sx2 (sy2 - cornerLength), Stroke,
          Font ''bold 14px Inter, sans-serif'',
          FillStyle color,
          FillRect sx1 (sy1 - textHeight - 4) (measureText (fullLabel percentText obj) + padding * 2) textHeight,
          FillStyle (Some ''#FFFFFF''),
          FillText (fullLabel percentText obj) (sx1 + padding) (sy1 - 8)]
         @ draw_trajectory color scaleX scaleY (trajectory obj))"

text \<open>
  Division of numbers: a zero divisor gives \<open>Infinity\<close> or \<open>NaN\<close>, no number the
  renderer could draw with (\<open>None\<close>).
\<close>

definition js_div :: "rat \<Rightarrow> rat \<Rightarrow> rat option" where
  "js_div a b = (if b = 0 then None else Some (a / b))"

text \<open>\<open>n || 1\<close> on a number.\<close>

definition or1 :: "nat \<Rightarrow> nat" where
  "or1 n = (if n = 0 then 1 else n)"

text \<open>
  One call of \<open>draw\<close>. \<open>NotReady\<close> is the early return (no canvas, no video or no 2D
  context: nothing is drawn and no further redraw is requested); \<open>NonFinite\<close> is a
  scale factor that is not a number; \<open>Drawn\<close> gives the canvas as resized, the
  operations on the context, and is followed by \<open>requestAnimationFrame(draw)\<close>.
\<close>

datatype draw_result = NotReady | NonFinite | Drawn canvas "canvas_op list"

definition draw ::
  "(string \<Rightarrow> rat) \<Rightarrow> (rat \<Rightarrow> string) \<Rightarrow> canvas option \<Rightarrow> video option \<Rightarrow> tracked_object list
     \<Rightarrow> draw_result" where
  "draw measureText percentText canvasRef videoRef objs =
     (case canvasRef of
        None \<Rightarrow> NotReady
      | Some cv \<Rightarrow>
     (case videoRef of
        None \<Rightarrow> NotReady
      | Some v \<Rightarrow>
          if \<not> ctx2d cv then NotReady
          else
            let cv' = (if width cv \<noteq> videoWidth v \<or> height cv \<noteq> videoHeight v
                       then cv\<lparr>width := videoWidth v, height := videoHeight v\<rparr> else cv)
            in (case js_div (of_nat (width cv')) (of_nat (or1 (videoWidth v))) of
                  None \<Rightarrow> NonFinite
                | Some scaleX \<Rightarrow>
               (case js_div (of_nat (height cv')) (of_nat (or1 (videoHeight v))) of
                  None \<Rightarrow> NonFinite
                | Some scaleY \<Rightarrow>
                    Drawn cv'
                      (ClearRect 0 0 (of_nat (width cv')) (of_nat (height cv'))
                       # concat (map (draw_object measureText percentText scaleX scaleY) objs))))))"

text \<open>A text measure for evaluating \<open>draw\<close> on examples: seven pixels a character.\<close>

definition measure7 :: "string \<Rightarrow> rat" where
  "measure7 s = 7 * of_nat (length s)"

text \<open>
  A percentage text for evaluating \<open>draw\<close> on examples: the nearest integer to the exact
  product, the larger one on a tie. It is what the browser prints where the product of
  the doubles is exact, as it is for the confidences 0, 1/2 and 1.
\<close>

definition percent_exact :: "rat \<Rightarrow> string" where
  "percent_exact c = show_nat (nat \<lfloor>c * 100 + 1 / 2\<rfloor>)"

text \<open>
  The bounding boxes a redraw strokes, as corner coordinates: \<open>strokeRect(x, y, w, h)\<close>
  covers the rectangle from \<open>(x, y)\<close> to \<open>(x + w, y + h)\<close>.
\<close>

fun stroked :: "canvas_op list \<Rightarrow> (rat \<times> rat \<times> rat \<times> rat) list" where
  "stroked [] = []"
| "stroked (StrokeRect x y w h # ops) = (x, y, x + w, y + h) # stroked ops"
| "stroked (_ # ops) = stroked ops"

definition drawn_ops :: "draw_result \<Rightarrow> canvas_op list" where
  "drawn_ops r = (case r of Drawn cv ops \<Rightarrow> ops | _ \<Rightarrow> [])"

definition rendered_boxes :: "draw_result \<Rightarrow> (rat \<times> rat \<times> rat \<times> rat) list" where
  "rendered_boxes r = stroked (drawn_ops r)"

section \<open>Example inputs\<close>

definition example_config :: tracking_config where
  "example_config =
     \<lparr> wsUrl = ''ws://localhost:8000/ws'', apiUrl = ''http://localhost:8000'',
       confidenceThreshold = Some (1 / 2) \<rparr>"

definition example_object :: tracked_object where
  "example_object =
     \<lparr> obj_id = 7, bbox = (100, 50, 200, 150), obj_class = ''person'', confidence = 0,
       trajectory = None \<rparr>"

section \<open>Properties of the stream session\<close>

lemmas hook_defs = startTracking_def connectWebSocket_def stopTracking_def sendFrame_def
  ws_onopen_def ws_onmessage_def ws_onerror_def ws_onclose_def ping_tick_def
  ws_readyState_def ws_send_def ws_close_def setInterval_def clearInterval_def
  set_readyState_def initial_def results_def truthy_def Let_def

subsection \<open>Sending frames\<close>

text \<open>
  C1. In every session state other than Open (Idle, Connecting, Closing, Closed)
  \<open>sendFrame\<close> performs no send on any socket, queues nothing and leaves the whole
  state of the hook as it was.
\<close>

theorem sendFrame_not_open_noop:
  assumes "sessionState st \<noteq> Open"
  shows "sendFrame frameData now st = st
       \<and> transmissions (sendFrame frameData now st) = transmissions st"
proof -
  have "sendFrame frameData now st = st"
  proof (cases "wsRef st")
    case None
    then show ?thesis by (simp add: sendFrame_def)
  next
    case (Some i)
    with assms have "ws_readyState st i \<noteq> Some OPEN"
      by (auto simp: sessionState_def)
    with Some show ?thesis by (simp add: sendFrame_def)
  qed
  then show ?thesis by simp
qed

theorem sendFrame_not_open_noop_witness:
  "sessionState (startTracking example_config 0 Constructed (initial 0)) \<noteq> Open
   \<and> sendFrame ''data:image/jpeg;base64,AAAA'' 25 (startTracking example_config 0 Constructed (initial 0))
       = startTracking example_config 0 Constructed (initial 0)
   \<and> transmissions (sendFrame ''data:image/jpeg;base64,AAAA'' 25
         (startTracking example_config 0 Constructed (initial 0))) = []"
  using sendFrame_not_open_noop
    [of "startTracking example_config 0 Constructed (initial 0)" "''data:image/jpeg;base64,AAAA''" 25]
  by (simp add: sessionState_def transmissions_def hook_defs)

subsection \<open>FPS accounting\<close>

lemma onmessage_results_branch:
  assumes "ty \<noteq> Some ''pong''" and "\<not> truthy err"
  shows "ws_onmessage (Parsed ty err (Some os)) now st =
     (if now - lastTimeRef st \<ge> 1000
      then st\<lparr>trackedObjects := os,
              fps := math_round (of_int ((frameCountRef st + 1) * 1000) / of_int (now - lastTimeRef st)),
              frameCountRef := 0, lastTimeRef := now\<rparr>
      else st\<lparr>trackedObjects := os, frameCountRef := frameCountRef st + 1\<rparr>)"
  using assms by (simp add: ws_onmessage_def Let_def)


lemma is_results_cases:
  assumes "is_results d"
  obtains ty err os where "d = Parsed ty err (Some os)" and "ty \<noteq> Some ''pong''" and "\<not> truthy err"
  using assms by (cases d) (auto simp: is_results_def)

lemma math_round_of_int_div:
  assumes "0 < b"
  shows "math_round (of_int a / of_int b) = (2 * a + b) div (2 * b)"
proof -
  from assms have "(of_int a / of_int b + 1 / 2 :: rat) = of_int (2 * a + b) / of_int (2 * b)"
    by (simp add: field_simps)
  then show ?thesis
    unfolding math_round_def by (simp only: floor_divide_of_int_eq)
qed

lemma math_round_of_int: "math_round (of_int n) = n"
  using math_round_of_int_div [of 1 n] by simp

lemma receive_append: "receive (ms @ ms') st = receive ms' (receive ms st)"
  by (induction ms arbitrary: st) auto

text \<open>Messages that arrive less than a second after the window start only count.\<close>

lemma receive_inside_window:
  "\<forall>t \<in> set ts. t - lastTimeRef st < 1000 \<Longrightarrow> length ds = length ts \<Longrightarrow> list_all is_results ds \<Longrightarrow>
   frameCountRef (receive (zip ds ts) st) = frameCountRef st + int (length ts)
   \<and> lastTimeRef (receive (zip ds ts) st) = lastTimeRef st
   \<and> fps (receive (zip ds ts) st) = fps st"
proof (induction ts arbitrary: ds st)
  case Nil
  then show ?case by simp
next
  case (Cons t ts)
  then obtain d ds' where ds: "ds = d # ds'" by (cases ds) auto
  with Cons.prems have "is_results d" by simp
  then obtain ty err os where d: "d = Parsed ty err (Some os)"
    and ok: "ty \<noteq> Some ''pong''" "\<not> truthy err"
    by (rule is_results_cases)
  let ?st = "ws_onmessage d t st"
  from Cons.prems have t: "t - lastTimeRef st < 1000" by simp
  then have st': "frameCountRef ?st = frameCountRef st + 1" "lastTimeRef ?st = lastTimeRef st"
     "fps ?st = fps st"
    unfolding d by (simp_all add: onmessage_results_branch [OF ok])
  from Cons.prems st' have "\<forall>t \<in> set ts. t - lastTimeRef ?st < 1000" by simp
  moreover from Cons.prems ds have "length ds' = length ts" "list_all is_results ds'" by simp_all
  ultimately show ?case using Cons.IH[of ?st ds'] st' ds by simp
qed

text \<open>
  C3, as stated, fails in its consequence: what ten results messages 100 ms apart make
  the FPS read depends on where the window started. The window starts at the call of
  \<open>startTracking\<close>, before the socket is open; when the first of the ten messages
  arrives 400 ms after it, the FPS is recomputed on the seventh and reads 7; when the
  ten arrive 1 ms before each tenth of a second, the last at 999 ms, the FPS is not
  recomputed at all and still reads 0.
\<close>

theorem fps_ten_messages_counterexample:
  "fps (run [StartTracking example_config 0 Constructed, SocketOpen 0,
             SocketMessage 0 (results [example_object]) 400,
             SocketMessage 0 (results [example_object]) 500,
             SocketMessage 0 (results [example_object]) 600,
             SocketMessage 0 (results [example_object]) 700,
             SocketMessage 0 (results [example_object]) 800,
             SocketMessage 0 (results [example_object]) 900,
             SocketMessage 0 (results [example_object]) 1000,
             SocketMessage 0 (results [example_object]) 1100,
             SocketMessage 0 (results [example_object]) 1200,
             SocketMessage 0 (results [example_object]) 1300] (initial 0)) = 7
   \<and> fps (receive [(results [], 99), (results [], 199), (results [], 299), (results [], 399),
                   (results [], 499), (results [], 599), (results [], 699), (results [], 799),
                   (results [], 899), (results [], 999)] (initial 0)) = 0"
  using math_round_of_int [of 7] by (simp add: hook_defs)

text \<open>
  C3, amended. Every message that reaches the results branch increments the counter;
  when at least 1000 ms have passed since the window start, the FPS becomes
  \<open>round(counter * 1000 / elapsed)\<close> and the counter and the window start are reset.
  Consequently, when the window starts at \<open>t0\<close> with the counter at 0 and ten such
  messages arrive 100 ms apart, the first at \<open>t0 + 100\<close> and so the tenth at
  \<open>t0 + 1000\<close>, the FPS reads 10.
\<close>

theorem fps_accounting:
  "(ty \<noteq> Some ''pong'' \<and> \<not> truthy err \<longrightarrow>
      ws_onmessage (Parsed ty err (Some os)) now st =
       (if now - lastTimeRef st \<ge> 1000
        then st\<lparr>trackedObjects := os,
                fps := math_round (of_int ((frameCountRef st + 1) * 1000) / of_int (now - lastTimeRef st)),
                frameCountRef := 0, lastTimeRef := now\<rparr>
        else st\<lparr>trackedObjects := os, frameCountRef := frameCountRef st + 1\<rparr>))
   \<and> (frameCountRef st = 0 \<and> lastTimeRef st = t0 \<and> length ds = 10 \<and> list_all is_results ds \<longrightarrow>
        fps (receive (zip ds (map (\<lambda>k. t0 + 100 * int k) [1 ..< 11])) st) = 10)"
proof (intro conjI impI)
  assume "ty \<noteq> Some ''pong'' \<and> \<not> truthy err"
  then show "ws_onmessage (Parsed ty err (Some os)) now st =
       (if now - lastTimeRef st \<ge> 1000
        then st\<lparr>trackedObjects := os,
                fps := math_round (of_int ((frameCountRef st + 1) * 1000) / of_int (now - lastTimeRef st)),
                frameCountRef := 0, lastTimeRef := now\<rparr>
        else st\<lparr>trackedObjects := os, frameCountRef := frameCountRef st + 1\<rparr>)"
    by (simp add: onmessage_results_branch)
next
  assume a: "frameCountRef st = 0 \<and> lastTimeRef st = t0 \<and> length ds = 10 \<and> list_all is_results ds"
  define ts where "ts = map (\<lambda>k. t0 + 100 * int k) [1 ..< 10]"
  have split: "map (\<lambda>k. t0 + 100 * int k) [1 ..< 11] = ts @ [t0 + 1000]"
    by (simp add: ts_def upt_rec)
  have len: "length ts = 9" by (simp add: ts_def)
  from a len obtain ds' d where ds: "ds = ds' @ [d]" "length ds' = length ts"
    by (cases ds rule: rev_cases) auto
  with a have all: "list_all is_results ds'" and "is_results d" by simp_all
  then obtain ty' err' os' where d: "d = Parsed ty' err' (Some os')"
    and ok: "ty' \<noteq> Some ''pong''" "\<not> truthy err'"
    by (auto elim: is_results_cases)
  have inside: "\<forall>t \<in> set ts. t - lastTimeRef st < 1000"
    using a by (auto simp: ts_def)
  let ?st = "receive (zip ds' ts) st"
  from receive_inside_window[OF inside ds(2) all] a len
  have mid: "frameCountRef ?st = 9" "lastTimeRef ?st = t0" by simp_all
  have "zip ds (ts @ [t0 + 1000]) = zip ds' ts @ [(d, t0 + 1000)]"
    using ds by simp
  then have "receive (zip ds (map (\<lambda>k. t0 + 100 * int k) [1 ..< 11])) st
        = ws_onmessage d (t0 + 1000) ?st"
    unfolding split by (simp add: receive_append)
  then show "fps (receive (zip ds (map (\<lambda>k. t0 + 100 * int k) [1 ..< 11])) st) = 10"
    using mid math_round_of_int [of 10] unfolding d by (simp add: onmessage_results_branch [OF ok])
qed

theorem fps_accounting_witness:
  "frameCountRef (initial 5) = 0 \<and> lastTimeRef (initial 5) = 5
   \<and> length (replicate 10 (Parsed (Some ''tracking_update'') None (Some [example_object]))) = 10
   \<and> list_all is_results (replicate 10 (Parsed (Some ''tracking_update'') None (Some [example_object])))
   \<and> fps (receive (zip (replicate 10 (Parsed (Some ''tracking_update'') None (Some [example_object])))
                       (map (\<lambda>k. 5 + 100 * int k) [1 ..< 11])) (initial 5)) = 10"
proof -
  let ?ds = "replicate 10 (Parsed (Some ''tracking_update'') None (Some [example_object]))"
  have h: "frameCountRef (initial 5) = 0 \<and> lastTimeRef (initial 5) = 5 \<and> length ?ds = 10
      \<and> list_all is_results ?ds"
    by (simp add: initial_def is_results_def truthy_def list_all_iff)
  from fps_accounting [where st = "initial 5" and ?t0.0 = 5 and ds = ?ds] h
  have "fps (receive (zip ?ds (map (\<lambda>k. 5 + 100 * int k) [1 ..< 11])) (initial 5)) = 10"
    by blast
  with h show ?thesis by blast
qed

subsection \<open>Stopping\<close>

lemma ws_close_not_live:
  "ws_readyState (ws_close i st) i \<noteq> Some CONNECTING \<and> ws_readyState (ws_close i st) i \<noteq> Some OPEN"
  by (auto simp: ws_close_def ws_readyState_def split: ready_state.splits)

lemma ws_close_open:
  "ws_readyState st i = Some OPEN \<Longrightarrow> ws_readyState (ws_close i st) i = Some CLOSING"
  by (auto simp: ws_close_def ws_readyState_def split: if_splits)

text \<open>
  C4. \<open>stopTracking\<close> may be called in any state, the fresh (idle) one included, where
  it changes nothing. After one call the tracked objects are empty, the FPS is 0, the
  timer \<open>pingIntervalRef\<close> names is no longer scheduled, \<open>wsRef\<close> is cleared and the
  socket it named is neither connecting nor open (an open one is closing). A second
  call gives the same state as the first.
\<close>

theorem stopTracking_idempotent:
  "stopTracking (stopTracking st) = stopTracking st
   \<and> stopTracking (initial now) = initial now
   \<and> trackedObjects (stopTracking st) = []
   \<and> fps (stopTracking st) = 0
   \<and> wsRef (stopTracking st) = None
   \<and> (\<forall>h. pingIntervalRef st = Some h \<longrightarrow> h \<notin> fst ` set (timers (stopTracking st)))
   \<and> (\<forall>i. wsRef st = Some i \<longrightarrow>
         ws_readyState (stopTracking st) i \<noteq> Some CONNECTING
       \<and> ws_readyState (stopTracking st) i \<noteq> Some OPEN
       \<and> (ws_readyState st i = Some OPEN \<longrightarrow> ws_readyState (stopTracking st) i = Some CLOSING))"
proof (intro conjI allI impI)
  show "stopTracking (stopTracking st) = stopTracking st"
    by (cases "pingIntervalRef st"; cases "wsRef st")
       (simp_all add: stopTracking_def clearInterval_def ws_close_def Let_def split: ready_state.splits)
  show "stopTracking (initial now) = initial now"
    by (simp add: stopTracking_def initial_def)
  show "trackedObjects (stopTracking st) = []"
    by (simp add: stopTracking_def clearInterval_def ws_close_def Let_def
          split: option.splits ready_state.splits)
  show "fps (stopTracking st) = 0"
    by (simp add: stopTracking_def clearInterval_def ws_close_def Let_def
          split: option.splits ready_state.splits)
  show "wsRef (stopTracking st) = None"
    by (simp add: stopTracking_def clearInterval_def Let_def split: option.splits)
next
  fix h assume "pingIntervalRef st = Some h"
  then show "h \<notin> fst ` set (timers (stopTracking st))"
    by (auto simp: stopTracking_def clearInterval_def ws_close_def Let_def
          split: option.splits ready_state.splits)
next
  fix i assume i: "wsRef st = Some i"
  define st2 where "st2 =
    (case pingIntervalRef st of
       None \<Rightarrow> st\<lparr>isProcessing := False, trackedObjects := [], fps := 0\<rparr>
     | Some h \<Rightarrow> clearInterval h (st\<lparr>isProcessing := False, trackedObjects := [], fps := 0\<rparr>))"
  have rs: "ws_readyState st2 i = ws_readyState st i"
    by (simp add: st2_def ws_readyState_def clearInterval_def split: option.splits)
  have eq: "ws_readyState (stopTracking st) i = ws_readyState (ws_close i st2) i"
    using i by (simp add: stopTracking_def st2_def Let_def ws_readyState_def clearInterval_def
         split: option.splits)
  show "ws_readyState (stopTracking st) i \<noteq> Some CONNECTING"
    unfolding eq using ws_close_not_live by blast
  show "ws_readyState (stopTracking st) i \<noteq> Some OPEN"
    unfolding eq using ws_close_not_live by blast
  assume "ws_readyState st i = Some OPEN"
  then show "ws_readyState (stopTracking st) i = Some CLOSING"
    unfolding eq using rs ws_close_open by simp
qed

theorem stopTracking_idempotent_witness:
  "pingIntervalRef (run [StartTracking example_config 0 Constructed, SocketOpen 0] (initial 0)) = Some 1
   \<and> wsRef (run [StartTracking example_config 0 Constructed, SocketOpen 0] (initial 0)) = Some 0
   \<and> ws_readyState (run [StartTracking example_config 0 Constructed, SocketOpen 0] (initial 0)) 0 = Some OPEN
   \<and> stopTracking (stopTracking (run [StartTracking example_config 0 Constructed, SocketOpen 0] (initial 0)))
       = stopTracking (run [StartTracking example_config 0 Constructed, SocketOpen 0] (initial 0))
   \<and> 1 \<notin> fst ` set (timers (stopTracking (run [StartTracking example_config 0 Constructed, SocketOpen 0] (initial 0))))
   \<and> ws_readyState (stopTracking (run [StartTracking example_config 0 Constructed, SocketOpen 0] (initial 0))) 0
       = Some CLOSING"
  using stopTracking_idempotent [of "run [StartTracking example_config 0 Constructed, SocketOpen 0] (initial 0)"]
  by (simp add: hook_defs)

subsection \<open>Error messages\<close>

text \<open>
  C6, as the statement about every message with an error field, fails: a message
  tagged \<open>pong\<close> is discarded before its error field is read, and an error field with
  the empty string is falsy, so the handler goes on to the \<open>objects\<close> field and
  replaces the snapshot.
\<close>

theorem error_field_counterexample:
  "error (ws_onmessage (Parsed (Some ''pong'') (Some ''Model not loaded'') None) 40 (initial 0))
     \<noteq> Some ''Model not loaded''
   \<and> error (ws_onmessage (Parsed None (Some '''') (Some [example_object])) 40 (initial 0)) \<noteq> Some ''''
   \<and> trackedObjects (ws_onmessage (Parsed None (Some '''') (Some [example_object])) 40 (initial 0))
     \<noteq> trackedObjects (initial 0)"
  by (simp add: ws_onmessage_def truthy_def initial_def)

text \<open>
  C6, amended. For every inbound message that is not tagged \<open>pong\<close> and carries a
  non-empty error field, handling it sets the error state to that error and changes
  nothing else: no socket is closed, the session state and the tracked objects stay as
  they were.
\<close>

theorem error_message_recorded:
  assumes "ty \<noteq> Some ''pong''" and "e \<noteq> []"
  shows "ws_onmessage (Parsed ty (Some e) objs) now st = st\<lparr>error := Some e\<rparr>
       \<and> error (ws_onmessage (Parsed ty (Some e) objs) now st) = Some e
       \<and> sockets (ws_onmessage (Parsed ty (Some e) objs) now st) = sockets st
       \<and> wsRef (ws_onmessage (Parsed ty (Some e) objs) now st) = wsRef st
       \<and> sessionState (ws_onmessage (Parsed ty (Some e) objs) now st) = sessionState st
       \<and> trackedObjects (ws_onmessage (Parsed ty (Some e) objs) now st) = trackedObjects st"
proof -
  from assms have "ws_onmessage (Parsed ty (Some e) objs) now st = st\<lparr>error := Some e\<rparr>"
    by (simp add: ws_onmessage_def truthy_def)
  then show ?thesis
    by (simp add: sessionState_def ws_readyState_def split: option.splits)
qed

theorem error_message_recorded_witness:
  "(None :: string option) \<noteq> Some ''pong'' \<and> ''Model not loaded'' \<noteq> []
   \<and> error (ws_onmessage (Parsed None (Some ''Model not loaded'') (Some [example_object])) 40
        (run [StartTracking example_config 0 Constructed, SocketOpen 0] (initial 0)))
       = Some ''Model not loaded''
   \<and> sessionState (ws_onmessage (Parsed None (Some ''Model not loaded'') (Some [example_object])) 40
        (run [StartTracking example_config 0 Constructed, SocketOpen 0] (initial 0))) = Open
   \<and> trackedObjects (ws_onmessage (Parsed None (Some ''Model not loaded'') (Some [example_object])) 40
        (run [StartTracking example_config 0 Constructed, SocketOpen 0] (initial 0))) = []"
  using error_message_recorded [of None "''Model not loaded''" "Some [example_object]" 40
      "run [StartTracking example_config 0 Constructed, SocketOpen 0] (initial 0)"]
  by (simp add: sessionState_def hook_defs)

subsection \<open>Frame identifiers, repeated starts, messages after a stop\<close>

text \<open>
  C7. The \<open>frame_id\<close> of an outbound frame is \<open>frameCountRef.current\<close>, the counter of
  the FPS window: \<open>sendFrame\<close> does not increment it, each results message does, and
  it returns to 0 when the window is reset. In the session below four frames are sent
  on one open socket; their ids are 0, 0, 1, 0: two equal ids, and a later id below an
  earlier one.
\<close>

theorem frame_id_not_increasing:
  "frame_ids (sent (sockets
     (run [StartTracking example_config 0 Constructed, SocketOpen 0,
           SendFrame ''a'' 10, SendFrame ''b'' 110,
           SocketMessage 0 (results [example_object]) 500, SendFrame ''c'' 510,
           SocketMessage 0 (results []) 1000, SendFrame ''d'' 1010] (initial 0)) ! 0))
   = [0, 0, 1, 0]"
  by (simp add: hook_defs)

text \<open>Every start that constructs a socket adds one, whatever the state.\<close>

lemma startTracking_adds_socket:
  "sockets (startTracking config now Constructed st) =
     sockets st @ [\<lparr>readyState = CONNECTING, ws_url = wsUrl config, sent = []\<rparr>]
   \<and> wsRef (startTracking config now Constructed st) = Some (length (sockets st))"
  by (simp add: startTracking_def connectWebSocket_def Let_def)

text \<open>
  C8. \<open>startTracking\<close> has no guard: a second call constructs a second socket and
  overwrites \<open>wsRef\<close>. After two starts both sockets open and are live together;
  \<open>stopTracking\<close> then closes only the second, and the first stays open with its
  ping timer still scheduled.
\<close>

theorem start_twice_two_live_sockets:
  "liveSockets (run [StartTracking example_config 0 Constructed,
                     StartTracking example_config 1 Constructed,
                     SocketOpen 0, SocketOpen 1] (initial 0)) = [0, 1]
   \<and> liveSockets (run [StartTracking example_config 0 Constructed,
                     StartTracking example_config 1 Constructed,
                     SocketOpen 0, SocketOpen 1, StopTracking] (initial 0)) = [0]
   \<and> timers (run [StartTracking example_config 0 Constructed,
                     StartTracking example_config 1 Constructed,
                     SocketOpen 0, SocketOpen 1, StopTracking] (initial 0)) = [(1, 0)]"
  by (simp add: liveSockets_def hook_defs upt_rec)

text \<open>
  When no socket but the current one is live, \<open>stopTracking\<close> leaves no live socket,
  and from then on, until the next start, no call and no event of the transport
  changes the (empty) tracked objects or schedules a timer.
\<close>

lemma no_live_readyState:
  assumes "no_live st"
  shows "ws_readyState st i \<noteq> Some OPEN" and "ws_readyState st i \<noteq> Some CONNECTING"
  using assms by (auto simp: no_live_def ws_readyState_def list_all_length)

lemma list_all_list_update:
  "list_all P xs \<Longrightarrow> P x \<Longrightarrow> list_all P (xs[i := x])"
  by (auto simp: list_all_iff dest: set_update_subset_insert [THEN subsetD])

lemma step_no_live:
  assumes "no_live st" and "\<not> is_start e"
  shows "no_live (step e st)"
    and "trackedObjects (step e st) = (if e = StopTracking then [] else trackedObjects st)"
    and "set (timers (step e st)) \<subseteq> set (timers st)"
proof -
  note ro = no_live_readyState [OF assms(1)]
  show "no_live (step e st)"
    using assms ro
    by (cases e)
       (auto simp: no_live_def hook_defs list_all_list_update
             split: option.splits ready_state.splits)
  show "trackedObjects (step e st) = (if e = StopTracking then [] else trackedObjects st)"
    using assms ro
    by (cases e)
       (auto simp: hook_defs split: option.splits ready_state.splits)
  show "set (timers (step e st)) \<subseteq> set (timers st)"
    using assms ro
    by (cases e)
       (auto simp: hook_defs split: option.splits ready_state.splits)
qed

lemma run_no_live:
  assumes "no_live st" and "list_all (\<lambda>e. \<not> is_start e) es"
  shows "no_live (run es st)
       \<and> (trackedObjects st = [] \<longrightarrow> trackedObjects (run es st) = [])
       \<and> set (timers (run es st)) \<subseteq> set (timers st)"
  using assms
proof (induction es arbitrary: st)
  case Nil
  then show ?case by simp
next
  case (Cons e es)
  then have 1: "no_live (step e st)"
    and 2: "trackedObjects st = [] \<longrightarrow> trackedObjects (step e st) = []"
    and 3: "set (timers (step e st)) \<subseteq> set (timers st)"
    using step_no_live [of st e] by auto
  from Cons.prems have "list_all (\<lambda>e. \<not> is_start e) es" by simp
  from Cons.IH [OF 1 this] 2 3 show ?case by auto
qed

lemma stopTracking_no_live:
  assumes "\<forall>i < length (sockets st). wsRef st \<noteq> Some i \<longrightarrow>
             readyState (sockets st ! i) = CLOSING \<or> readyState (sockets st ! i) = CLOSED"
  shows "no_live (stopTracking st)"
proof (cases "wsRef st")
  case None
  with assms show ?thesis
    by (auto simp: no_live_def stopTracking_def clearInterval_def Let_def list_all_length
          split: option.splits)
next
  case (Some i)
  with assms show ?thesis
    by (auto simp: no_live_def stopTracking_def clearInterval_def ws_close_def Let_def
          list_all_length nth_list_update
          split: option.splits ready_state.splits)
qed

lemma teardown_permanent:
  assumes "\<forall>i < length (sockets st). wsRef st \<noteq> Some i \<longrightarrow>
             readyState (sockets st ! i) = CLOSING \<or> readyState (sockets st ! i) = CLOSED"
    and "list_all (\<lambda>e. \<not> is_start e) es"
  shows "trackedObjects (run es (stopTracking st)) = []"
    and "set (timers (run es (stopTracking st))) \<subseteq> set (timers (stopTracking st))"
proof -
  have "trackedObjects (stopTracking st) = []"
    by (simp add: stopTracking_def clearInterval_def ws_close_def Let_def
          split: option.splits ready_state.splits)
  with run_no_live [OF stopTracking_no_live [OF assms(1)] assms(2)]
  show "trackedObjects (run es (stopTracking st)) = []"
    and "set (timers (run es (stopTracking st))) \<subseteq> set (timers (stopTracking st))"
    by auto
qed

text \<open>
  C9. A message after a stop can still change the tracked objects. After two starts
  the socket the second start orphaned is still open when \<open>stopTracking\<close> returns,
  so the transport still delivers its messages, and \<open>ws.onmessage\<close> has no guard of
  its own: a results message that arrives after the stop replaces the tracked objects,
  which are then no longer empty.
\<close>

theorem message_after_stop_mutates:
  "trackedObjects (run [StartTracking example_config 0 Constructed,
                     StartTracking example_config 1 Constructed,
                     SocketOpen 0, SocketOpen 1, StopTracking,
                     SocketMessage 0 (results [example_object]) 50] (initial 0)) = [example_object]"
  by (simp add: hook_defs)

section \<open>Properties of the overlay renderer\<close>

lemma draw_ready:
  assumes "ctx2d cv"
  shows "draw m pc (Some cv) (Some v) objs =
     Drawn (cv\<lparr>width := videoWidth v, height := videoHeight v\<rparr>)
       (ClearRect 0 0 (of_nat (videoWidth v)) (of_nat (videoHeight v))
        # concat (map (draw_object m pc (if videoWidth v = 0 then 0 else 1)
                                     (if videoHeight v = 0 then 0 else 1)) objs))"
  using assms by (simp add: draw_def js_div_def or1_def Let_def)

lemma draw_never_NonFinite: "draw m pc canvasRef videoRef objs \<noteq> NonFinite"
  by (simp add: draw_def js_div_def or1_def Let_def split: option.splits)

lemma stroked_append: "stroked (xs @ ys) = stroked xs @ stroked ys"
  by (induction xs rule: stroked.induct) simp_all

lemma stroked_LineTo: "stroked (map (\<lambda>pt. LineTo (f pt) (g pt)) ps) = []"
  by (induction ps) simp_all

lemma stroked_draw_trajectory: "stroked (draw_trajectory color sx sy tr) = []"
  by (simp add: draw_trajectory_def stroked_append stroked_LineTo split: option.splits list.splits)

lemma stroked_draw_object:
  "stroked (draw_object m pc sx sy obj) =
     (case bbox obj of (x1, y1, x2, y2) \<Rightarrow> [(x1 * sx, y1 * sy, x2 * sx, y2 * sy)])"
  by (simp add: draw_object_def Let_def stroked_append stroked_draw_trajectory split: prod.splits)

lemma stroked_objects:
  "stroked (concat (map (draw_object m pc sx sy) objs)) =
     map (\<lambda>obj. case bbox obj of (x1, y1, x2, y2) \<Rightarrow> (x1 * sx, y1 * sy, x2 * sx, y2 * sy)) objs"
  by (induction objs) (simp_all add: stroked_append stroked_draw_object split: prod.splits)

lemma rendered_boxes_draw:
  assumes "ctx2d cv"
  shows "rendered_boxes (draw m pc (Some cv) (Some v) objs) =
     map (\<lambda>obj. case bbox obj of (x1, y1, x2, y2) \<Rightarrow>
            (x1 * (if videoWidth v = 0 then 0 else 1), y1 * (if videoHeight v = 0 then 0 else 1),
             x2 * (if videoWidth v = 0 then 0 else 1), y2 * (if videoHeight v = 0 then 0 else 1))) objs"
  by (simp add: draw_ready [OF assms] rendered_boxes_def drawn_ops_def stroked_objects)

subsection \<open>Scaling of bounding boxes\<close>

text \<open>
  C2, as stated, fails on its example: \<open>draw\<close> first resizes the canvas to the video's
  native size, so a 1280 by 960 canvas over a 640 by 480 video is 640 by 480 when the
  scale factors are computed, and the box (100, 50, 200, 150) is not stroked at
  (200, 100, 400, 300).
\<close>

theorem bbox_scaling_counterexample:
  "rendered_boxes (draw measure7 percent_exact (Some \<lparr>width = 1280, height = 960, ctx2d = True\<rparr>)
        (Some \<lparr>videoWidth = 640, videoHeight = 480\<rparr>) [example_object]) \<noteq> [(200, 100, 400, 300)]
   \<and> bbox example_object = (100, 50, 200, 150)"
  by (simp add: rendered_boxes_draw example_object_def)

text \<open>
  C2, amended. On every redraw with a 2D context and a video of non-zero native size,
  the canvas is first given the video's native size; the scale factors are the width
  and height of that resized canvas over the native width and height, both 1; every
  object is drawn by \<open>draw_object\<close> with these factors, each bbox corner \<open>(x, y)\<close> at
  \<open>(x * scaleX, y * scaleY)\<close>, so the boxes are stroked at their source coordinates.
\<close>

theorem bbox_scaling:
  assumes "ctx2d cv" and "videoWidth v \<noteq> 0" and "videoHeight v \<noteq> 0"
    and "cv' = cv\<lparr>width := videoWidth v, height := videoHeight v\<rparr>"
    and "scaleX = of_nat (width cv') / of_nat (videoWidth v)"
    and "scaleY = of_nat (height cv') / of_nat (videoHeight v)"
  shows "draw m pc (Some cv) (Some v) objs =
           Drawn cv' (ClearRect 0 0 (of_nat (width cv')) (of_nat (height cv'))
                      # concat (map (draw_object m pc scaleX scaleY) objs))
         \<and> scaleX = 1 \<and> scaleY = 1
         \<and> rendered_boxes (draw m pc (Some cv) (Some v) objs) =
             map (\<lambda>obj. case bbox obj of (x1, y1, x2, y2) \<Rightarrow>
                    (x1 * scaleX, y1 * scaleY, x2 * scaleX, y2 * scaleY)) objs
         \<and> rendered_boxes (draw m pc (Some cv) (Some v) objs) = map bbox objs"
proof -
  from assms have sx: "scaleX = 1" and sy: "scaleY = 1" by simp_all
  have "rendered_boxes (draw m pc (Some cv) (Some v) objs) = map bbox objs"
    using assms(2,3) by (simp add: rendered_boxes_draw [OF assms(1)] split: prod.splits)
  moreover have "rendered_boxes (draw m pc (Some cv) (Some v) objs) =
             map (\<lambda>obj. case bbox obj of (x1, y1, x2, y2) \<Rightarrow>
                    (x1 * scaleX, y1 * scaleY, x2 * scaleX, y2 * scaleY)) objs"
    using assms(2,3) by (simp add: rendered_boxes_draw [OF assms(1)] sx sy)
  moreover have "draw m pc (Some cv) (Some v) objs =
           Drawn cv' (ClearRect 0 0 (of_nat (width cv')) (of_nat (height cv'))
                      # concat (map (draw_object m pc scaleX scaleY) objs))"
    using assms(2,3,4) by (simp add: draw_ready [OF assms(1)] sx sy)
  ultimately show ?thesis using sx sy by blast
qed

theorem bbox_scaling_witness:
  "ctx2d \<lparr>width = 1280, height = 960, ctx2d = True\<rparr>
   \<and> videoWidth \<lparr>videoWidth = 640, videoHeight = 480\<rparr> \<noteq> 0
   \<and> videoHeight \<lparr>videoWidth = 640, videoHeight = 480\<rparr> \<noteq> 0
   \<and> rendered_boxes (draw measure7 percent_exact (Some \<lparr>width = 1280, height = 960, ctx2d = True\<rparr>)
        (Some \<lparr>videoWidth = 640, videoHeight = 480\<rparr>) [example_object]) = [(100, 50, 200, 150)]"
proof -
  have c: "ctx2d \<lparr>width = 1280, height = 960, ctx2d = True\<rparr>"
    and w: "videoWidth \<lparr>videoWidth = 640, videoHeight = 480\<rparr> \<noteq> 0"
    and h: "videoHeight \<lparr>videoWidth = 640, videoHeight = 480\<rparr> \<noteq> 0"
    by simp_all
  from bbox_scaling [OF c w h refl refl refl, of measure7 percent_exact "[example_object]"]
  have "rendered_boxes (draw measure7 percent_exact (Some \<lparr>width = 1280, height = 960, ctx2d = True\<rparr>)
        (Some \<lparr>videoWidth = 640, videoHeight = 480\<rparr>) [example_object]) = map bbox [example_object]"
    by blast
  then show ?thesis
    using c w h by (simp add: example_object_def)
qed

subsection \<open>A video without width or height\<close>

text \<open>
  C5, as stated, fails in its second half: with a native width of 0 the canvas is resized
  to width 0 and the scale factor is \<open>0 / 1 = 0\<close>, not 1, so the x coordinates 100 and
  200 of the box are drawn at 0.
\<close>

theorem zero_dimension_counterexample:
  "rendered_boxes (draw measure7 percent_exact (Some \<lparr>width = 300, height = 150, ctx2d = True\<rparr>)
        (Some \<lparr>videoWidth = 0, videoHeight = 480\<rparr>) [example_object]) = [(0, 50, 0, 150)]
   \<and> bbox example_object = (100, 50, 200, 150)"
  by (simp add: rendered_boxes_draw example_object_def)

text \<open>
  C5, amended. No redraw ends with a scale factor that is not a number: a native
  dimension of 0 is replaced by 1 as the divisor. The canvas has then been resized to
  that dimension, so the scale factor of a zero axis is \<open>0 / 1 = 0\<close> and every bbox
  coordinate on that axis is drawn at 0.
\<close>

theorem zero_dimension_scale:
  "draw m pc canvasRef videoRef objs \<noteq> NonFinite
   \<and> (ctx2d cv \<and> videoWidth v = 0 \<longrightarrow>
        js_div (of_nat (videoWidth v)) (of_nat (or1 (videoWidth v))) = Some 0
      \<and> draw m pc (Some cv) (Some v) objs =
            Drawn (cv\<lparr>width := 0, height := videoHeight v\<rparr>)
              (ClearRect 0 0 0 (of_nat (videoHeight v))
               # concat (map (draw_object m pc 0 (if videoHeight v = 0 then 0 else 1)) objs))
      \<and> (\<forall>(x1, y1, x2, y2) \<in> set (rendered_boxes (draw m pc (Some cv) (Some v) objs)). x1 = 0 \<and> x2 = 0))
   \<and> (ctx2d cv \<and> videoHeight v = 0 \<longrightarrow>
        js_div (of_nat (videoHeight v)) (of_nat (or1 (videoHeight v))) = Some 0
      \<and> draw m pc (Some cv) (Some v) objs =
            Drawn (cv\<lparr>width := videoWidth v, height := 0\<rparr>)
              (ClearRect 0 0 (of_nat (videoWidth v)) 0
               # concat (map (draw_object m pc (if videoWidth v = 0 then 0 else 1) 0) objs))
      \<and> (\<forall>(x1, y1, x2, y2) \<in> set (rendered_boxes (draw m pc (Some cv) (Some v) objs)). y1 = 0 \<and> y2 = 0))"
proof (intro conjI impI)
  show "draw m pc canvasRef videoRef objs \<noteq> NonFinite" by (rule draw_never_NonFinite)
next
  assume a: "ctx2d cv \<and> videoWidth v = 0"
  then show "js_div (of_nat (videoWidth v)) (of_nat (or1 (videoWidth v))) = Some 0"
    by (simp add: js_div_def or1_def)
  from a show "draw m pc (Some cv) (Some v) objs =
            Drawn (cv\<lparr>width := 0, height := videoHeight v\<rparr>)
              (ClearRect 0 0 0 (of_nat (videoHeight v))
               # concat (map (draw_object m pc 0 (if videoHeight v = 0 then 0 else 1)) objs))"
    by (simp add: draw_ready)
  from a show "\<forall>(x1, y1, x2, y2) \<in> set (rendered_boxes (draw m pc (Some cv) (Some v) objs)). x1 = 0 \<and> x2 = 0"
    by (auto simp: rendered_boxes_draw split: prod.splits)
next
  assume a: "ctx2d cv \<and> videoHeight v = 0"
  then show "js_div (of_nat (videoHeight v)) (of_nat (or1 (videoHeight v))) = Some 0"
    by (simp add: js_div_def or1_def)
  from a show "draw m pc (Some cv) (Some v) objs =
            Drawn (cv\<lparr>width := videoWidth v, height := 0\<rparr>)
              (ClearRect 0 0 (of_nat (videoWidth v)) 0
               # concat (map (draw_object m pc (if videoWidth v = 0 then 0 else 1) 0) objs))"
    by (simp add: draw_ready)
  from a show "\<forall>(x1, y1, x2, y2) \<in> set (rendered_boxes (draw m pc (Some cv) (Some v) objs)). y1 = 0 \<and> y2 = 0"
    by (auto simp: rendered_boxes_draw split: prod.splits)
qed

theorem zero_dimension_scale_witness:
  "ctx2d \<lparr>width = 300, height = 150, ctx2d = True\<rparr>
   \<and> videoWidth \<lparr>videoWidth = 0, videoHeight = 0\<rparr> = 0
   \<and> videoHeight \<lparr>videoWidth = 640, videoHeight = 0\<rparr> = 0
   \<and> draw measure7 percent_exact (Some \<lparr>width = 300, height = 150, ctx2d = True\<rparr>)
        (Some \<lparr>videoWidth = 0, videoHeight = 0\<rparr>) [example_object] \<noteq> NonFinite
   \<and> rendered_boxes (draw measure7 percent_exact (Some \<lparr>width = 300, height = 150, ctx2d = True\<rparr>)
        (Some \<lparr>videoWidth = 0, videoHeight = 0\<rparr>) [example_object]) = [(0, 0, 0, 0)]
   \<and> rendered_boxes (draw measure7 percent_exact (Some \<lparr>width = 300, height = 150, ctx2d = True\<rparr>)
        (Some \<lparr>videoWidth = 640, videoHeight = 0\<rparr>) [example_object]) = [(100, 0, 200, 0)]"
proof -
  let ?cv = "\<lparr>width = 300, height = 150, ctx2d = True\<rparr>"
  let ?v0 = "\<lparr>videoWidth = 0, videoHeight = 0\<rparr>"
  let ?v1 = "\<lparr>videoWidth = 640, videoHeight = 0\<rparr>"
  have c: "ctx2d ?cv" and w: "videoWidth ?v0 = 0" and h: "videoHeight ?v1 = 0"
    by simp_all
  note t0 = zero_dimension_scale [of measure7 percent_exact "Some ?cv" "Some ?v0" "[example_object]" ?cv ?v0]
  note t1 = zero_dimension_scale [of measure7 percent_exact "Some ?cv" "Some ?v1" "[example_object]" ?cv ?v1]
  from t0 have n: "draw measure7 percent_exact (Some ?cv) (Some ?v0) [example_object] \<noteq> NonFinite"
    by blast
  from t0 c w have d0: "draw measure7 percent_exact (Some ?cv) (Some ?v0) [example_object] =
      Drawn (?cv\<lparr>width := 0, height := videoHeight ?v0\<rparr>)
        (ClearRect 0 0 0 (of_nat (videoHeight ?v0))
         # concat (map (draw_object measure7 percent_exact 0 (if videoHeight ?v0 = 0 then 0 else 1)) [example_object]))"
    by blast
  from t1 c h have d1: "draw measure7 percent_exact (Some ?cv) (Some ?v1) [example_object] =
      Drawn (?cv\<lparr>width := videoWidth ?v1, height := 0\<rparr>)
        (ClearRect 0 0 (of_nat (videoWidth ?v1)) 0
         # concat (map (draw_object measure7 percent_exact (if videoWidth ?v1 = 0 then 0 else 1) 0) [example_object]))"
    by blast
  have "rendered_boxes (draw measure7 percent_exact (Some ?cv) (Some ?v0) [example_object]) = [(0, 0, 0, 0)]"
    unfolding d0 by (simp add: rendered_boxes_def drawn_ops_def stroked_draw_object example_object_def)
  moreover have "rendered_boxes (draw measure7 percent_exact (Some ?cv) (Some ?v1) [example_object]) = [(100, 0, 200, 0)]"
    unfolding d1 by (simp add: rendered_boxes_def drawn_ops_def stroked_draw_object example_object_def)
  ultimately show ?thesis using c w h n by blast
qed

subsection \<open>No confidence filter\<close>





end
